theory Spec2Isabelle
  imports Main "HOL-Library.Word" "HOL-Library.List_Lexorder"
begin

section \<open>Values of the program\<close>

text \<open>
  A JavaScript string is a sequence of 16-bit code units. Identifiers of documents
  (the hexadecimal form of an ObjectId), of sockets and of users are such strings; the
  default order of \<^verbatim>\<open>Array.prototype.sort\<close> compares them code unit by code unit,
  which is the lexicographic order on lists of words. A date is its number of
  milliseconds.
\<close>

type_synonym jsstring = "16 word list"
type_synonym oid = jsstring
type_synonym time = nat
type_synonym socket_id = nat

text \<open>
  The fields of an event payload come from the client and can hold any JSON value. The
  handlers test them for truthiness and call \<^verbatim>\<open>trim\<close> on them, so the model keeps
  the shape of the value: only a string has a \<^verbatim>\<open>trim\<close> method.
\<close>

datatype jsval = JUndefined | JNull | JBool bool | JNum int | JStr jsstring | JObj

fun truthy :: "jsval \<Rightarrow> bool" where
  "truthy JUndefined = False"
| "truthy JNull = False"
| "truthy (JBool b) = b"
| "truthy (JNum n) = (n \<noteq> 0)"
| "truthy (JStr s) = (s \<noteq> [])"
| "truthy JObj = True"

text \<open>
  \<^verbatim>\<open>String.prototype.trim\<close> removes white space and line terminators from both ends:
  TAB, LF, VT, FF, CR, SP, NBSP, the space separators of Unicode, LS, PS and the byte
  order mark.
\<close>

definition is_js_space :: "16 word \<Rightarrow> bool" where
  "is_js_space c \<longleftrightarrow>
     c \<in> {0x9, 0xA, 0xB, 0xC, 0xD, 0x20, 0xA0, 0x1680, 0x2028, 0x2029, 0x202F, 0x205F,
          0x3000, 0xFEFF}
     \<or> (0x2000 \<le> c \<and> c \<le> 0x200A)"

definition trim :: "jsstring \<Rightarrow> jsstring" where
  "trim s = rev (dropWhile is_js_space (rev (dropWhile is_js_space s)))"

section \<open>Documents\<close>

record user =
  u_id :: oid
  u_name :: jsstring
  u_email :: jsstring
  u_password :: jsstring
  u_profilePicture :: jsstring

text \<open>The user as \<^verbatim>\<open>select('-password')\<close> returns it.\<close>

record user_view =
  v_id :: oid
  v_name :: jsstring
  v_email :: jsstring
  v_profilePicture :: jsstring

definition select_without_password :: "user \<Rightarrow> user_view" where
  "select_without_password u =
     \<lparr>v_id = u_id u, v_name = u_name u, v_email = u_email u,
      v_profilePicture = u_profilePicture u\<rparr>"

text \<open>The sender as \<^verbatim>\<open>populate('sender', 'name profilePicture')\<close> fills it in.\<close>

record sender_view =
  s_id :: oid
  s_name :: jsstring
  s_profilePicture :: jsstring

record conversation =
  c_id :: oid
  participants :: "oid list"
  lastMessage :: "oid option"
  lastMessageAt :: time

record message =
  m_id :: oid
  m_conversation :: oid
  m_sender :: oid
  m_text :: jsstring
  m_read :: bool
  m_readAt :: "time option"
  m_createdAt :: time

record populated_message =
  pm_message :: message
  pm_sender :: "sender_view option"

section \<open>Connections, rooms and events\<close>

record socket =
  sock_id :: socket_id
  userId :: oid
  sock_user :: user_view

record presence =
  socketId :: socket_id
  p_user :: user_view

text \<open>
  Room names are the template strings \<^verbatim>\<open>conversation-${id}\<close> and \<^verbatim>\<open>user-${id}\<close>;
  the two prefixes differ, so a room is its kind and its identifier.
\<close>

datatype room = ConversationRoom jsstring | UserRoom jsstring

datatype target =
    ToSocket socket_id
  | ToRoom room
  | ToRoomExcept room socket_id
  | BroadcastExcept socket_id

datatype event =
    ErrorEvent string
  | NewMessage populated_message
  | MessageNotification jsstring populated_message user_view
  | UserOnline oid
  | UserOffline oid
  | UserTyping oid jsstring jsval
  | MessagesRead jsstring oid

type_synonym emission = "target \<times> event"

text \<open>
  The state the handlers share: the three collections of the document store, the
  \<^verbatim>\<open>activeUsers\<close> map (a JavaScript Map keeps its keys in insertion order and is
  searched in that order, so it is an association list) and the room membership kept
  by the socket server. The store is reliable in this model: every read and every
  write succeeds.
\<close>

record state =
  users :: "user list"
  conversations :: "conversation list"
  messages :: "message list"
  activeUsers :: "(oid \<times> presence) list"
  rooms :: "(socket_id \<times> room) list"

fun Map_set :: "'k \<Rightarrow> 'v \<Rightarrow> ('k \<times> 'v) list \<Rightarrow> ('k \<times> 'v) list" where
  "Map_set k v [] = [(k, v)]"
| "Map_set k v (p # ps) = (if fst p = k then (k, v) # ps else p # Map_set k v ps)"

definition Map_delete :: "'k \<Rightarrow> ('k \<times> 'v) list \<Rightarrow> ('k \<times> 'v) list" where
  "Map_delete k ps = filter (\<lambda>p. fst p \<noteq> k) ps"

definition Map_values :: "('k \<times> 'v) list \<Rightarrow> 'v list" where
  "Map_values ps = map snd ps"

definition Map_has :: "'k \<Rightarrow> ('k \<times> 'v) list \<Rightarrow> bool" where
  "Map_has k ps \<longleftrightarrow> k \<in> fst ` set ps"

section \<open>The store\<close>

text \<open>
  What a handler can throw inside its \<^verbatim>\<open>try\<close>: a TypeError of the language, the
  CastError of a query whose id cannot be cast, the error of \<^verbatim>\<open>jwt.verify\<close>.
\<close>

datatype error = TypeError | CastError | JsonWebTokenError

text \<open>
  \<^verbatim>\<open>findById\<close> receives the id as the client or the token gave it, a string, and
  casts it to an ObjectId before it looks the document up; the query is rejected with a
  CastError when the string cannot be cast. The cast belongs to the driver and is a
  parameter \<open>castObjectId\<close>: the ObjectId the string stands for (an upper-case and a
  lower-case spelling stand for the same one), or \<open>None\<close>. Documents hold ObjectIds,
  written in their canonical form, as \<^verbatim>\<open>toString\<close> gives them.
\<close>

type_synonym objectid_cast = "jsstring \<Rightarrow> oid option"

definition User_findById :: "objectid_cast \<Rightarrow> user list \<Rightarrow> jsstring \<Rightarrow> error + user option" where
  "User_findById castObjectId us raw =
     (case castObjectId raw of
        None \<Rightarrow> Inl CastError
      | Some i \<Rightarrow> Inr (find (\<lambda>u. u_id u = i) us))"

definition Conversation_findById ::
  "objectid_cast \<Rightarrow> conversation list \<Rightarrow> jsstring \<Rightarrow> error + conversation option" where
  "Conversation_findById castObjectId cs raw =
     (case castObjectId raw of
        None \<Rightarrow> Inl CastError
      | Some i \<Rightarrow> Inr (find (\<lambda>c. c_id c = i) cs))"

text \<open>\<^verbatim>\<open>doc.save()\<close> of a document read from the collection writes it back under its id.\<close>

fun Conversation_save :: "conversation \<Rightarrow> conversation list \<Rightarrow> conversation list" where
  "Conversation_save c [] = []"
| "Conversation_save c (d # ds) = (if c_id d = c_id c then c # ds else d # Conversation_save c ds)"

text \<open>
  Modelled from the spec: the Message schema (models/Message.js) is not among the
  sources. The spec's data model gives a Message a unique ID, the owning Conversation
  ID, the sender's user ID, the text, a read flag, an optional read timestamp and a
  creation timestamp; a new Message is unread and has no read timestamp. The handler
  passes the conversation, the sender and the text; the identifier and the creation
  time are given by the store.
\<close>

definition new_Message :: "oid \<Rightarrow> time \<Rightarrow> oid \<Rightarrow> oid \<Rightarrow> jsstring \<Rightarrow> message" where
  "new_Message new_id created conv sndr txt =
     \<lparr>m_id = new_id, m_conversation = conv, m_sender = sndr, m_text = txt,
      m_read = False, m_readAt = None, m_createdAt = created\<rparr>"

text \<open>\<^verbatim>\<open>populate\<close> looks the sender up by the ObjectId the Message holds.\<close>

definition populate_sender :: "user list \<Rightarrow> message \<Rightarrow> populated_message" where
  "populate_sender us m =
     \<lparr>pm_message = m,
      pm_sender = map_option
        (\<lambda>u. \<lparr>s_id = u_id u, s_name = u_name u, s_profilePicture = u_profilePicture u\<rparr>)
        (find (\<lambda>u. u_id u = m_sender m) us)\<rparr>"

section \<open>Conversation.findOrCreate\<close>

text \<open>
  \<^verbatim>\<open>findOne({ participants })\<close> matches a document whose array equals the given
  one; \<^verbatim>\<open>create\<close> appends a document with a fresh identifier and the schema's
  default \<^verbatim>\<open>lastMessageAt\<close>. Both the fresh identifier and the clock are inputs.
  The unique index the schema declares on \<^verbatim>\<open>participants\<close> is a constraint the
  store applies to inserts; the collection of this model accepts every insert, and
  calls are sequential, so \<^verbatim>\<open>create\<close> only ever receives an array that
  \<^verbatim>\<open>findOne\<close> has just not found.
\<close>

definition Conversation_findOne :: "conversation list \<Rightarrow> oid list \<Rightarrow> conversation option" where
  "Conversation_findOne cs ps = find (\<lambda>c. participants c = ps) cs"

definition Conversation_create :: "oid \<Rightarrow> time \<Rightarrow> oid list \<Rightarrow> conversation" where
  "Conversation_create new_id now ps =
     \<lparr>c_id = new_id, participants = ps, lastMessage = None, lastMessageAt = now\<rparr>"

definition findOrCreate ::
  "oid \<Rightarrow> time \<Rightarrow> conversation list \<Rightarrow> oid \<Rightarrow> oid \<Rightarrow> conversation \<times> conversation list" where
  "findOrCreate new_id now cs userId1 userId2 =
     (let ps = sort [userId1, userId2] in
      case Conversation_findOne cs ps of
        Some c \<Rightarrow> (c, cs)
      | None \<Rightarrow> (let c = Conversation_create new_id now ps in (c, cs @ [c])))"

section \<open>Connection authentication\<close>

text \<open>
  \<^verbatim>\<open>jwt.verify\<close> is a parameter: it returns the \<^verbatim>\<open>id\<close> of the token's payload or
  throws (\<open>None\<close>). A token that is not a string makes it throw as well. The body of
  the \<^verbatim>\<open>try\<close> either throws, or passes an error to \<^verbatim>\<open>next\<close>, or attaches the
  user id and the user to the socket; the lookup of the user is inside the
  \<^verbatim>\<open>try\<close>, so its CastError is caught like the error of \<^verbatim>\<open>jwt.verify\<close>.
\<close>

definition authenticate_try ::
  "objectid_cast \<Rightarrow> (jsstring \<Rightarrow> jsstring option) \<Rightarrow> user list \<Rightarrow> jsval
     \<Rightarrow> error + (string + (oid \<times> user_view))" where
  "authenticate_try castObjectId jwt_verify us token =
     (if \<not> truthy token then Inr (Inl ''Authentication error: No token provided'')
      else case token of
        JStr t \<Rightarrow>
          (case jwt_verify t of
             None \<Rightarrow> Inl JsonWebTokenError
           | Some decoded_id \<Rightarrow>
               (case User_findById castObjectId us decoded_id of
                  Inl e \<Rightarrow> Inl e
                | Inr None \<Rightarrow> Inr (Inl ''Authentication error: User not found'')
                | Inr (Some u) \<Rightarrow> Inr (Inr (u_id u, select_without_password u))))
      | _ \<Rightarrow> Inl JsonWebTokenError)"

text \<open>
  The middleware: the message of the error passed to \<^verbatim>\<open>next\<close>, which the client
  receives, or what is attached to the socket. The \<^verbatim>\<open>catch\<close> answers every throw
  with the same message.
\<close>

definition authenticate ::
  "objectid_cast \<Rightarrow> (jsstring \<Rightarrow> jsstring option) \<Rightarrow> user list \<Rightarrow> jsval
     \<Rightarrow> string + (oid \<times> user_view)" where
  "authenticate castObjectId jwt_verify us token =
     (case authenticate_try castObjectId jwt_verify us token of
        Inl e \<Rightarrow> Inl ''Authentication error: Invalid token''
      | Inr r \<Rightarrow> r)"

section \<open>Socket handlers\<close>

definition join :: "socket_id \<Rightarrow> room \<Rightarrow> (socket_id \<times> room) list \<Rightarrow> (socket_id \<times> room) list" where
  "join s r ms = (if (s, r) \<in> set ms then ms else ms @ [(s, r)])"

definition leave :: "socket_id \<Rightarrow> room \<Rightarrow> (socket_id \<times> room) list \<Rightarrow> (socket_id \<times> room) list" where
  "leave s r ms = filter (\<lambda>m. m \<noteq> (s, r)) ms"

definition on_connection :: "state \<Rightarrow> socket \<Rightarrow> state \<times> emission list" where
  "on_connection st sock =
     (st\<lparr>activeUsers :=
           Map_set (userId sock) \<lparr>socketId = sock_id sock, p_user = sock_user sock\<rparr>
             (activeUsers st),
         rooms := join (sock_id sock) (UserRoom (userId sock)) (rooms st)\<rparr>,
      [(BroadcastExcept (sock_id sock), UserOnline (userId sock))])"

definition join_conversation :: "state \<Rightarrow> socket \<Rightarrow> oid \<Rightarrow> state" where
  "join_conversation st sock conversationId =
     st\<lparr>rooms := join (sock_id sock) (ConversationRoom conversationId) (rooms st)\<rparr>"

definition leave_conversation :: "state \<Rightarrow> socket \<Rightarrow> oid \<Rightarrow> state" where
  "leave_conversation st sock conversationId =
     st\<lparr>rooms := leave (sock_id sock) (ConversationRoom conversationId) (rooms st)\<rparr>"

definition on_disconnect :: "state \<Rightarrow> socket \<Rightarrow> state \<times> emission list" where
  "on_disconnect st sock =
     (st\<lparr>activeUsers := Map_delete (userId sock) (activeUsers st),
         rooms := filter (\<lambda>m. fst m \<noteq> sock_id sock) (rooms st)\<rparr>,
      [(BroadcastExcept (sock_id sock), UserOffline (userId sock))])"

record send_payload =
  sp_conversationId :: jsstring
  sp_text :: jsval
  sp_receiverId :: jsval

text \<open>
  The search of \<^verbatim>\<open>activeUsers.values()\<close> for the receiver compares the id of each
  entry's user with the payload's \<^verbatim>\<open>receiverId\<close> by strict equality, which only a
  string can satisfy.
\<close>

definition find_receiverSocket :: "(oid \<times> presence) list \<Rightarrow> jsval \<Rightarrow> presence option" where
  "find_receiverSocket au receiverId =
     (case receiverId of
        JStr r \<Rightarrow> find (\<lambda>u. v_id (p_user u) = r) (Map_values au)
      | _ \<Rightarrow> None)"

text \<open>
  The notification of the receiver: emitted to \<^verbatim>\<open>user-${receiverId}\<close> when the search
  found an entry, and only then.
\<close>

definition notify_receiver ::
  "(oid \<times> presence) list \<Rightarrow> jsval \<Rightarrow> oid \<Rightarrow> populated_message \<Rightarrow> user_view \<Rightarrow> emission list" where
  "notify_receiver au receiverId conversationId populated sender =
     (case receiverId of
        JStr r \<Rightarrow>
          (case find_receiverSocket au receiverId of
             Some receiverSocket \<Rightarrow>
               [(ToRoom (UserRoom r), MessageNotification conversationId populated sender)]
           | None \<Rightarrow> [])
      | _ \<Rightarrow> [])"

text \<open>
  The body of the \<^verbatim>\<open>send-message\<close> handler inside its \<^verbatim>\<open>try\<close>. It throws a
  TypeError when it destructures a payload that is \<^verbatim>\<open>null\<close> or \<^verbatim>\<open>undefined\<close>
  or calls \<^verbatim>\<open>trim\<close> on a truthy value that is not a string, and a CastError when
  the conversation id cannot be cast. Every throw happens before the first write. The
  Message holds the conversation id as an ObjectId, while the room and the
  notification are named with the string the client sent. The inputs \<open>new_id\<close> and
  \<open>created\<close> are what the store gives the new Message; \<open>now\<close> is the later
  \<^verbatim>\<open>new Date()\<close> of the handler.
\<close>

definition send_message_try ::
  "objectid_cast \<Rightarrow> oid \<Rightarrow> time \<Rightarrow> time \<Rightarrow> state \<Rightarrow> socket \<Rightarrow> send_payload option
     \<Rightarrow> error + (state \<times> emission list)" where
  "send_message_try castObjectId new_id created now st sock data =
     (case data of
        None \<Rightarrow> Inl TypeError
      | Some d \<Rightarrow>
          if \<not> truthy (sp_text d)
          then Inr (st, [(ToSocket (sock_id sock), ErrorEvent ''Message text is required'')])
          else (case sp_text d of
            JStr text \<Rightarrow>
              if trim text = []
              then Inr (st, [(ToSocket (sock_id sock), ErrorEvent ''Message text is required'')])
              else (case Conversation_findById castObjectId (conversations st)
                           (sp_conversationId d) of
                Inl e \<Rightarrow> Inl e
              | Inr None \<Rightarrow>
                  Inr (st, [(ToSocket (sock_id sock),
                             ErrorEvent ''Conversation not found or access denied'')])
              | Inr (Some conversation) \<Rightarrow>
                  if userId sock \<notin> set (participants conversation)
                  then Inr (st, [(ToSocket (sock_id sock),
                                  ErrorEvent ''Conversation not found or access denied'')])
                  else (case castObjectId (sp_conversationId d) of
                    None \<Rightarrow> Inl CastError
                  | Some conversation_oid \<Rightarrow>
                    let msg = new_Message new_id created conversation_oid (userId sock)
                                (trim text);
                        st1 = st\<lparr>messages := messages st @ [msg]\<rparr>;
                        populated = populate_sender (users st1) msg;
                        conversation' = conversation\<lparr>lastMessage := Some (m_id msg),
                                                     lastMessageAt := now\<rparr>;
                        st2 = st1\<lparr>conversations :=
                                     Conversation_save conversation' (conversations st1)\<rparr>
                    in Inr (st2,
                         (ToRoom (ConversationRoom (sp_conversationId d)), NewMessage populated)
                         # notify_receiver (activeUsers st2) (sp_receiverId d)
                             (sp_conversationId d) populated (sock_user sock))))
          | _ \<Rightarrow> Inl TypeError))"

text \<open>The handler: its \<^verbatim>\<open>catch\<close> answers every throw with one error event.\<close>

definition send_message ::
  "objectid_cast \<Rightarrow> oid \<Rightarrow> time \<Rightarrow> time \<Rightarrow> state \<Rightarrow> socket \<Rightarrow> send_payload option
     \<Rightarrow> state \<times> emission list" where
  "send_message castObjectId new_id created now st sock data =
     (case send_message_try castObjectId new_id created now st sock data of
        Inr r \<Rightarrow> r
      | Inl e \<Rightarrow> (st, [(ToSocket (sock_id sock), ErrorEvent ''Failed to send message'')]))"

text \<open>The \<^verbatim>\<open>typing\<close> handler: a signal to the room, the sender left out.\<close>

definition typing :: "socket \<Rightarrow> oid \<Rightarrow> jsval \<Rightarrow> emission list" where
  "typing sock conversationId isTyping =
     [(ToRoomExcept (ConversationRoom conversationId) (sock_id sock),
       UserTyping (userId sock) (v_name (sock_user sock)) isTyping)]"

text \<open>
  \<^verbatim>\<open>Message.updateMany\<close> with the filter of the \<^verbatim>\<open>mark-read\<close> handler: same
  conversation, another sender, not read yet.
\<close>

definition mark_read_filter :: "oid \<Rightarrow> oid \<Rightarrow> message \<Rightarrow> bool" where
  "mark_read_filter conversationId uid m \<longleftrightarrow>
     m_conversation m = conversationId \<and> m_sender m \<noteq> uid \<and> m_read m = False"

definition Message_updateMany_read :: "oid \<Rightarrow> oid \<Rightarrow> time \<Rightarrow> message list \<Rightarrow> message list" where
  "Message_updateMany_read conversationId uid now ms =
     map (\<lambda>m. if mark_read_filter conversationId uid m
              then m\<lparr>m_read := True, m_readAt := Some now\<rparr> else m) ms"

text \<open>
  The body of the \<^verbatim>\<open>mark-read\<close> handler inside its \<^verbatim>\<open>try\<close>; the filter of
  \<^verbatim>\<open>updateMany\<close> casts the conversation id as the lookup did.
\<close>

definition mark_read_try ::
  "objectid_cast \<Rightarrow> time \<Rightarrow> state \<Rightarrow> socket \<Rightarrow> jsstring option
     \<Rightarrow> error + (state \<times> emission list)" where
  "mark_read_try castObjectId now st sock data =
     (case data of
        None \<Rightarrow> Inl TypeError
      | Some conversationId \<Rightarrow>
          (case Conversation_findById castObjectId (conversations st) conversationId of
             Inl e \<Rightarrow> Inl e
           | Inr None \<Rightarrow> Inr (st, [])
           | Inr (Some conversation) \<Rightarrow>
               if userId sock \<notin> set (participants conversation) then Inr (st, [])
               else (case castObjectId conversationId of
                 None \<Rightarrow> Inl CastError
               | Some conversation_oid \<Rightarrow>
                 Inr (st\<lparr>messages :=
                          Message_updateMany_read conversation_oid (userId sock) now
                            (messages st)\<rparr>,
                      [(ToRoomExcept (ConversationRoom conversationId) (sock_id sock),
                        MessagesRead conversationId (userId sock))]))))"

text \<open>The handler: its \<^verbatim>\<open>catch\<close> only logs.\<close>

definition mark_read ::
  "objectid_cast \<Rightarrow> time \<Rightarrow> state \<Rightarrow> socket \<Rightarrow> jsstring option \<Rightarrow> state \<times> emission list" where
  "mark_read castObjectId now st sock data =
     (case mark_read_try castObjectId now st sock data of
        Inr r \<Rightarrow> r
      | Inl e \<Rightarrow> (st, []))"

text \<open>The sockets an emission reaches, given the room membership and the open sockets.\<close>

fun recipients :: "socket_id list \<Rightarrow> (socket_id \<times> room) list \<Rightarrow> target \<Rightarrow> socket_id list" where
  "recipients open ms (ToSocket s) = [s]"
| "recipients open ms (ToRoom r) = map fst (filter (\<lambda>m. snd m = r) ms)"
| "recipients open ms (ToRoomExcept r s) =
     filter (\<lambda>x. x \<noteq> s) (map fst (filter (\<lambda>m. snd m = r) ms))"
| "recipients open ms (BroadcastExcept s) = filter (\<lambda>x. x \<noteq> s) open"

section \<open>Message history over REST\<close>

text \<open>
  \<^verbatim>\<open>GET /conversations/:conversationId/messages\<close>, after the \<^verbatim>\<open>auth\<close> middleware
  has set the requesting user: the status and message of a refusal, or the messages
  found, sorted by \<^verbatim>\<open>createdAt\<close> ascending and cut by \<^verbatim>\<open>limit(100)\<close>. A throw
  of the lookup is answered by the \<^verbatim>\<open>catch\<close> with status 500.
\<close>

definition get_messages ::
  "objectid_cast \<Rightarrow> state \<Rightarrow> oid \<Rightarrow> jsstring \<Rightarrow> (nat \<times> string) + populated_message list" where
  "get_messages castObjectId st uid conversationId =
     (case Conversation_findById castObjectId (conversations st) conversationId of
        Inl e \<Rightarrow> Inl (500, ''Failed to fetch messages'')
      | Inr None \<Rightarrow> Inl (404, ''Conversation not found'')
      | Inr (Some conversation) \<Rightarrow>
          if uid \<notin> set (participants conversation) then Inl (403, ''Access denied'')
          else Inr (map (populate_sender (users st))
                 (take 100 (sort_key m_createdAt
                    (filter (\<lambda>m. m_conversation m = c_id conversation) (messages st))))))"

section \<open>One conversation per pair\<close>

text \<open>
  The shape \<^verbatim>\<open>findOrCreate\<close> gives to every conversation it creates: two
  participants, in sorted order.
\<close>

definition canonical_pairs :: "conversation list \<Rightarrow> bool" where
  "canonical_pairs cs \<longleftrightarrow>
     list_all (\<lambda>c. length (participants c) = 2 \<and> sorted (participants c)) cs"

section \<open>The presence registry\<close>

text \<open>
  The connection handler stores an entry under \<^verbatim>\<open>socket.userId\<close>, which the
  middleware set to the id of \<^verbatim>\<open>socket.user\<close>: every entry of the registry is
  keyed by the id of its user.
\<close>

definition registry_keyed :: "(oid \<times> presence) list \<Rightarrow> bool" where
  "registry_keyed au \<longleftrightarrow> list_all (\<lambda>e. v_id (p_user (snd e)) = fst e) au"

section \<open>Sample data\<close>

text \<open>
  The sample cast accepts a string of 24 hexadecimal digits and gives the ObjectId in
  lower case, as every version of the driver does; any other string is refused here
  (some versions of the driver also accept strings of 12 bytes, and no sample input has
  that length).
\<close>

definition is_hex_digit :: "16 word \<Rightarrow> bool" where
  "is_hex_digit c \<longleftrightarrow>
     (0x30 \<le> c \<and> c \<le> 0x39) \<or> (0x41 \<le> c \<and> c \<le> 0x46) \<or> (0x61 \<le> c \<and> c \<le> 0x66)"

definition lower_hex :: "16 word \<Rightarrow> 16 word" where
  "lower_hex c = (if 0x41 \<le> c \<and> c \<le> 0x46 then c + 0x20 else c)"

definition cast_hex24 :: objectid_cast where
  "cast_hex24 s =
     (if length s = 24 \<and> list_all is_hex_digit s then Some (map lower_hex s) else None)"

text \<open>
  The sample identifiers are 23 digits \<open>0\<close> followed by one more hexadecimal digit.
  Three users \<open>a\<close>, \<open>b\<close> and \<open>c\<close>; one conversation \<open>1\<close> between \<open>a\<close> and \<open>b\<close>;
  \<open>b\<close> and \<open>c\<close> are connected, and the socket of \<open>b\<close> has joined the room of the
  conversation. Strings are written as their code units.
\<close>

definition hex24 :: "16 word \<Rightarrow> oid" where
  "hex24 c = replicate 23 0x30 @ [c]"

definition alice :: user where
  "alice = \<lparr>u_id = hex24 0x61, u_name = [0x41], u_email = [0x61, 0x40], u_password = [0x70],
            u_profilePicture = []\<rparr>"

definition bob :: user where
  "bob = \<lparr>u_id = hex24 0x62, u_name = [0x42], u_email = [0x62, 0x40], u_password = [0x71],
          u_profilePicture = []\<rparr>"

definition carol :: user where
  "carol = \<lparr>u_id = hex24 0x63, u_name = [0x43], u_email = [0x63, 0x40], u_password = [0x72],
            u_profilePicture = []\<rparr>"

definition alice_socket :: socket where
  "alice_socket = \<lparr>sock_id = 1, userId = hex24 0x61, sock_user = select_without_password alice\<rparr>"

definition carol_socket :: socket where
  "carol_socket = \<lparr>sock_id = 3, userId = hex24 0x63, sock_user = select_without_password carol\<rparr>"

definition demo_conversation :: conversation where
  "demo_conversation =
     \<lparr>c_id = hex24 0x31, participants = [hex24 0x61, hex24 0x62], lastMessage = None,
      lastMessageAt = 0\<rparr>"

definition demo_messages :: "message list" where
  "demo_messages =
     [\<lparr>m_id = hex24 0x65, m_conversation = hex24 0x31, m_sender = hex24 0x61, m_text = [0x68, 0x69],
       m_read = False, m_readAt = None, m_createdAt = 1\<rparr>,
      \<lparr>m_id = hex24 0x66, m_conversation = hex24 0x31, m_sender = hex24 0x62, m_text = [0x79, 0x6F],
       m_read = False, m_readAt = None, m_createdAt = 2\<rparr>,
      \<lparr>m_id = hex24 0x37, m_conversation = hex24 0x31, m_sender = hex24 0x62, m_text = [0x6F, 0x6B],
       m_read = True, m_readAt = Some 3, m_createdAt = 3\<rparr>,
      \<lparr>m_id = hex24 0x38, m_conversation = hex24 0x32, m_sender = hex24 0x63, m_text = [0x68, 0x6D],
       m_read = False, m_readAt = None, m_createdAt = 4\<rparr>]"

definition demo_state :: state where
  "demo_state =
     \<lparr>users = [alice, bob, carol],
      conversations = [demo_conversation],
      messages = demo_messages,
      activeUsers =
        [(hex24 0x62, \<lparr>socketId = 2, p_user = select_without_password bob\<rparr>),
         (hex24 0x63, \<lparr>socketId = 3, p_user = select_without_password carol\<rparr>)],
      rooms = [(2, UserRoom (hex24 0x62)), (2, ConversationRoom (hex24 0x31)),
               (3, UserRoom (hex24 0x63))]\<rparr>"

definition demo_payload :: "jsval \<Rightarrow> jsval \<Rightarrow> send_payload" where
  "demo_payload txt receiver =
     \<lparr>sp_conversationId = hex24 0x31, sp_text = txt, sp_receiverId = receiver\<rparr>"

text \<open>
  A verifier of tokens for the examples: the token \<open>ta\<close> carries the id of \<open>a\<close>, the
  token \<open>tz\<close> the well-formed id of a user who is no longer stored, the token \<open>tq\<close>
  the id \<open>zz\<close>, which is no ObjectId; any other token is refused.
\<close>

definition demo_jwt_verify :: "jsstring \<Rightarrow> jsstring option" where
  "demo_jwt_verify t =
     (if t = [0x74, 0x61] then Some (hex24 0x61)
      else if t = [0x74, 0x7A] then Some (hex24 0x30)
      else if t = [0x74, 0x71] then Some [0x7A, 0x7A]
      else None)"

text \<open>
  A history of 101 messages of conversation \<open>1\<close>, sent by \<open>a\<close> at the times 1 to 101
  and stored in that order.
\<close>

definition history_message :: "nat \<Rightarrow> message" where
  "history_message n =
     \<lparr>m_id = replicate 21 0x30 @
              [0x30 + of_nat (n div 100), 0x30 + of_nat (n div 10 mod 10), 0x30 + of_nat (n mod 10)],
      m_conversation = hex24 0x31, m_sender = hex24 0x61, m_text = [0x68],
      m_read = False, m_readAt = None, m_createdAt = n\<rparr>"

definition history_state :: state where
  "history_state = demo_state\<lparr>messages := map history_message [1..<102]\<rparr>"

lemmas demo_defs =
  alice_def bob_def carol_def alice_socket_def carol_socket_def demo_conversation_def
  demo_messages_def demo_state_def demo_payload_def select_without_password_def

section \<open>Auxiliary facts\<close>

lemma dropWhile_all_iff: "(\<forall>x \<in> set (dropWhile P s). P x) \<longleftrightarrow> (\<forall>x \<in> set s. P x)"
  by (induction s) auto

lemma trim_empty_iff: "trim s = [] \<longleftrightarrow> (\<forall>c \<in> set s. is_js_space c)"
  unfolding trim_def by (simp add: dropWhile_eq_Nil_conv dropWhile_all_iff)

lemma findById_c_id:
  "Conversation_findById castObjectId cs raw = Inr (Some c) \<Longrightarrow> castObjectId raw = Some (c_id c)"
proof -
  assume found: "Conversation_findById castObjectId cs raw = Inr (Some c)"
  then obtain i where i: "castObjectId raw = Some i" and "find (\<lambda>c. c_id c = i) cs = Some c"
    by (auto simp: Conversation_findById_def split: option.splits)
  then have "c_id c = i"
    by (induction cs) (auto split: if_splits)
  then show ?thesis
    using i by simp
qed

lemma find_save:
  "find (\<lambda>c. c_id c = i) cs = Some c \<Longrightarrow> c_id c' = i \<Longrightarrow>
   find (\<lambda>c. c_id c = i) (Conversation_save c' cs) = Some c'"
  by (induction cs) (auto split: if_splits)

lemma findById_save:
  assumes "Conversation_findById castObjectId cs raw = Inr (Some c)" and "c_id c' = c_id c"
  shows "Conversation_findById castObjectId (Conversation_save c' cs) raw = Inr (Some c')"
proof -
  have i: "castObjectId raw = Some (c_id c)"
    using findById_c_id [OF assms(1)] .
  then have "find (\<lambda>x. c_id x = c_id c) cs = Some c"
    using assms(1) by (simp add: Conversation_findById_def)
  then show ?thesis
    using find_save [of "c_id c" cs c c'] assms(2) i by (simp add: Conversation_findById_def)
qed

lemma send_message_null_payload:
  "send_message castObjectId new_id created now st sock None =
     (st, [(ToSocket (sock_id sock), ErrorEvent ''Failed to send message'')])"
  by (simp add: send_message_def send_message_try_def)

lemma send_message_not_a_string:
  "truthy v \<Longrightarrow> (\<forall>s. v \<noteq> JStr s) \<Longrightarrow> sp_text d = v \<Longrightarrow>
   send_message castObjectId new_id created now st sock (Some d) =
     (st, [(ToSocket (sock_id sock), ErrorEvent ''Failed to send message'')])"
  by (cases v) (auto simp: send_message_def send_message_try_def)

lemma trim_nonempty: "trim s \<noteq> [] \<Longrightarrow> s \<noteq> []"
  by (auto simp: trim_def)

lemma send_message_cast_error:
  assumes "sp_text d = JStr s" and "trim s \<noteq> []"
    and "castObjectId (sp_conversationId d) = None"
  shows "send_message castObjectId new_id created now st sock (Some d) =
     (st, [(ToSocket (sock_id sock), ErrorEvent ''Failed to send message'')])"
  using assms trim_nonempty [OF assms(2)]
  by (simp add: send_message_def send_message_try_def Conversation_findById_def)

lemma send_message_refused:
  assumes "sp_text d = JStr s" and "trim s \<noteq> []"
    and "Conversation_findById castObjectId (conversations st) (sp_conversationId d) = Inr None
         \<or> (\<exists>conv. Conversation_findById castObjectId (conversations st) (sp_conversationId d) =
                Inr (Some conv) \<and> userId sock \<notin> set (participants conv))"
  shows "send_message castObjectId new_id created now st sock (Some d) =
     (st, [(ToSocket (sock_id sock), ErrorEvent ''Conversation not found or access denied'')])"
  using assms trim_nonempty [OF assms(2)]
  by (auto simp: send_message_def send_message_try_def)

lemma send_message_accepted:
  assumes "sp_text d = JStr s" and "trim s \<noteq> []"
    and "Conversation_findById castObjectId (conversations st) (sp_conversationId d) =
           Inr (Some conv)"
    and "userId sock \<in> set (participants conv)"
  shows "send_message castObjectId new_id created now st sock (Some d) =
     (st\<lparr>messages := messages st @
            [new_Message new_id created (c_id conv) (userId sock) (trim s)],
         conversations := Conversation_save
            (conv\<lparr>lastMessage := Some new_id, lastMessageAt := now\<rparr>) (conversations st)\<rparr>,
      (ToRoom (ConversationRoom (sp_conversationId d)),
       NewMessage (populate_sender (users st)
         (new_Message new_id created (c_id conv) (userId sock) (trim s))))
      # notify_receiver (activeUsers st) (sp_receiverId d) (sp_conversationId d)
          (populate_sender (users st)
            (new_Message new_id created (c_id conv) (userId sock) (trim s)))
          (sock_user sock))"
  using assms trim_nonempty [OF assms(2)] findById_c_id [OF assms(3)]
  by (simp add: send_message_def send_message_try_def Let_def new_Message_def)

lemma find_registry:
  "registry_keyed au \<Longrightarrow>
   (find (\<lambda>u. v_id (p_user u) = r) (Map_values au) \<noteq> None) = Map_has r au"
  unfolding registry_keyed_def Map_values_def Map_has_def
  by (induction au) (auto simp: image_iff)

lemma notify_receiver_present:
  "registry_keyed au \<Longrightarrow> Map_has r au \<Longrightarrow>
   notify_receiver au (JStr r) cid pm su = [(ToRoom (UserRoom r), MessageNotification cid pm su)]"
  using find_registry [of au r]
  by (auto simp: notify_receiver_def find_receiverSocket_def split: option.splits)

lemma notify_receiver_absent:
  "registry_keyed au \<Longrightarrow> (\<forall>r. v = JStr r \<longrightarrow> \<not> Map_has r au) \<Longrightarrow>
   notify_receiver au v cid pm su = []"
proof (cases v)
  case (JStr r)
  assume "registry_keyed au" and "\<forall>r. v = JStr r \<longrightarrow> \<not> Map_has r au"
  then show ?thesis
    using find_registry [of au r] JStr
    by (auto simp: notify_receiver_def find_receiverSocket_def split: option.splits)
qed (simp_all add: notify_receiver_def)

lemma Map_set_keyed:
  "registry_keyed au \<Longrightarrow> v_id (p_user p) = k \<Longrightarrow> registry_keyed (Map_set k p au)"
  unfolding registry_keyed_def by (induction au) auto

lemma Map_delete_keyed: "registry_keyed au \<Longrightarrow> registry_keyed (Map_delete k au)"
  unfolding registry_keyed_def Map_delete_def by (induction au) auto

lemma authenticate_socket:
  "authenticate castObjectId jwt_verify us token = Inr (uid, u) \<Longrightarrow> v_id u = uid"
  by (auto simp: authenticate_def authenticate_try_def select_without_password_def
      split: if_splits jsval.splits option.splits sum.splits)

lemma on_connection_keyed:
  "registry_keyed (activeUsers st) \<Longrightarrow> v_id (sock_user sock) = userId sock \<Longrightarrow>
   registry_keyed (activeUsers (fst (on_connection st sock)))"
  by (simp add: on_connection_def Map_set_keyed)

lemma on_disconnect_keyed:
  "registry_keyed (activeUsers st) \<Longrightarrow>
   registry_keyed (activeUsers (fst (on_disconnect st sock)))"
  by (simp add: on_disconnect_def Map_delete_keyed)


lemma hex24_eq [simp]: "hex24 a = hex24 b \<longleftrightarrow> a = b"
  by (simp add: hex24_def)

lemma replicate_snoc_le:
  "replicate n z @ [a] \<le> replicate n z @ [b] \<longleftrightarrow> a \<le> (b::'a::linorder)"
  by (induction n) (auto simp: le_less)

lemma hex24_le [simp]: "hex24 a \<le> hex24 b \<longleftrightarrow> a \<le> b"
  unfolding hex24_def by (rule replicate_snoc_le)

lemma cast_hex24_hex24:
  "is_hex_digit c \<Longrightarrow> cast_hex24 (hex24 c) = Some (hex24 (lower_hex c))"
  by (simp add: cast_hex24_def hex24_def list_all_iff is_hex_digit_def lower_hex_def)

lemma cast_sample_ids [simp]:
  "cast_hex24 (hex24 0x30) = Some (hex24 0x30)"
  "cast_hex24 (hex24 0x31) = Some (hex24 0x31)"
  "cast_hex24 (hex24 0x33) = Some (hex24 0x33)"
  "cast_hex24 (hex24 0x61) = Some (hex24 0x61)"
  "cast_hex24 [0x6E, 0x6F, 0x70, 0x65] = None"
  "cast_hex24 [0x7A, 0x7A] = None"
  by (simp_all add: cast_hex24_hex24 is_hex_digit_def lower_hex_def)
    (simp_all add: cast_hex24_def)

lemma nope_not_hex24: "[0x6E, 0x6F, 0x70, 0x65] \<noteq> hex24 c"
proof
  assume "[0x6E, 0x6F, 0x70, 0x65] = hex24 c"
  then have "length [0x6E, 0x6F, 0x70, (0x65::16 word)] = length (hex24 c)"
    by simp
  then show False
    by (simp add: hex24_def)
qed

lemma c_id_demo [simp]: "c_id demo_conversation = hex24 0x31"
  by (simp add: demo_conversation_def)

lemma demo_registry_keyed: "registry_keyed (activeUsers demo_state)"
  by (simp add: registry_keyed_def demo_defs)

lemma users_demo: "users demo_state = [alice, bob, carol]"
  by (simp add: demo_state_def)

lemma sort_pair_swap: "sort [a, b] = sort [b, (a::'a::linorder)]"
  by auto

lemma sort_pair_shape: "length (sort [a, b]) = 2 \<and> sorted (sort [a, (b::'a::linorder)])"
  by auto

lemma sorted_pair_set:
  fixes p :: "('a::linorder) list"
  assumes "length p = 2" and "sorted p"
  shows "set p = {a, b} \<longleftrightarrow> p = sort [a, b]"
proof -
  obtain x y where p: "p = [x, y]"
    using assms(1) by (cases p; cases "tl p") auto
  then have "x \<le> y" using assms(2) by simp
  then show ?thesis
    by (auto simp: p doubleton_eq_iff)
qed

lemma find_snoc:
  "find P (xs @ [y]) = (case find P xs of Some x \<Rightarrow> Some x | None \<Rightarrow> if P y then Some y else None)"
  by (induction xs) auto

lemma find_None_all: "find P xs = None \<Longrightarrow> x \<in> set xs \<Longrightarrow> \<not> P x"
  by (induction xs) (auto split: if_splits)

lemma find_Some_holds: "find P xs = Some x \<Longrightarrow> P x \<and> x \<in> set xs"
  by (induction xs) (auto split: if_splits)

lemma filter_key_once:
  "distinct (map f xs) \<Longrightarrow> y \<in> f ` set xs \<Longrightarrow> length (filter (\<lambda>x. f x = y) xs) = 1"
proof (induction xs)
  case Nil
  then show ?case by simp
next
  case (Cons x xs)
  show ?case
  proof (cases "f x = y")
    case True
    have "f x \<notin> f ` set xs"
      using Cons.prems(1) by simp
    then have "\<forall>z \<in> set xs. f z \<noteq> y"
      using True by (metis imageI)
    then have "filter (\<lambda>x. f x = y) xs = []"
      by (simp add: filter_empty_conv)
    then show ?thesis using True by simp
  next
    case False
    then show ?thesis using Cons by auto
  qed
qed

lemma findOrCreate_found:
  "Conversation_findOne cs (sort [a, b]) = Some c \<Longrightarrow> findOrCreate i t cs a b = (c, cs)"
  by (simp add: findOrCreate_def Let_def del: sort_key_simps)

lemma findOrCreate_created:
  "Conversation_findOne cs (sort [a, b]) = None \<Longrightarrow>
   findOrCreate i t cs a b =
     (Conversation_create i t (sort [a, b]), cs @ [Conversation_create i t (sort [a, b])])"
  by (simp add: findOrCreate_def Let_def del: sort_key_simps)

lemma findOne_snoc_create:
  "Conversation_findOne cs ps = None \<Longrightarrow>
   Conversation_findOne (cs @ [Conversation_create i t ps]) ps = Some (Conversation_create i t ps)"
  by (simp add: Conversation_findOne_def find_snoc Conversation_create_def)

lemma findOrCreate_findOne:
  assumes "findOrCreate i t cs a b = (c, cs')"
  shows "Conversation_findOne cs' (sort [a, b]) = Some c"
proof (cases "Conversation_findOne cs (sort [a, b])")
  case None
  have "c = Conversation_create i t (sort [a, b])"
    and "cs' = cs @ [Conversation_create i t (sort [a, b])]"
    using assms unfolding findOrCreate_created [OF None, of i t] by blast+
  then show ?thesis
    using findOne_snoc_create [OF None, of i t] by blast
next
  case (Some d)
  have "c = d" and "cs' = cs"
    using assms unfolding findOrCreate_found [OF Some, of i t] by blast+
  then show ?thesis
    using Some by blast
qed

lemma findOrCreate_invariant:
  assumes "findOrCreate i t cs a b = (c, cs')"
    and "canonical_pairs cs" and "distinct (map participants cs)"
  shows "canonical_pairs cs' \<and> distinct (map participants cs')"
proof (cases "Conversation_findOne cs (sort [a, b])")
  case None
  define ps where "ps = sort [a, b]"
  have new: "cs' = cs @ [Conversation_create i t ps]"
    using assms(1) unfolding findOrCreate_created [OF None, of i t] ps_def by blast
  have shape: "length ps = 2 \<and> sorted ps"
    unfolding ps_def by (rule sort_pair_shape)
  have none: "find (\<lambda>c. participants c = ps) cs = None"
    using None unfolding Conversation_findOne_def ps_def .
  have "ps \<notin> participants ` set cs"
  proof
    assume "ps \<in> participants ` set cs"
    then obtain x where "x \<in> set cs" and "participants x = ps"
      by auto
    then show False
      using find_None_all [OF none, of x] by simp
  qed
  then show ?thesis
    using assms(2,3) shape
    by (simp add: new canonical_pairs_def Conversation_create_def)
next
  case (Some d)
  have "cs' = cs"
    using assms(1) unfolding findOrCreate_found [OF Some, of i t] by blast
  then show ?thesis
    using assms(2,3) by blast
qed

lemma get_messages_take:
  assumes "Conversation_findById castObjectId (conversations st) raw = Inr (Some conv)"
    and "uid \<in> set (participants conv)"
    and "\<forall>m \<in> set (messages st). m_conversation m = c_id conv"
    and "sorted (map m_createdAt (messages st))"
  shows "get_messages castObjectId st uid raw =
           Inr (map (populate_sender (users st)) (take 100 (messages st)))"
proof -
  have "filter (\<lambda>m. m_conversation m = c_id conv) (messages st) = messages st"
    using assms(3) by (simp add: filter_id_conv)
  then show ?thesis
    using assms(1,2,4) by (simp add: get_messages_def sort_key_id_if_sorted)
qed

lemma history_createdAt: "map m_createdAt (map history_message ns) = ns"
  by (induction ns) (simp_all add: history_message_def)

lemma history_populated_createdAt:
  "map (\<lambda>p. m_createdAt (pm_message p)) (map (populate_sender us) (map history_message ns)) = ns"
  by (induction ns) (simp_all add: history_message_def populate_sender_def)

section \<open>Sending a message\<close>

text \<open>
  C1. A send-message event that passes validation (its text is a string that is not
  empty after trimming) and authorization (the conversation looked up under the given
  id exists and the sender is one of its participants) appends one Message: its text is
  the trimmed payload text, its sender the user id of the connection, its conversation
  the given id (as the ObjectId it casts to, which is the id of the Conversation found),
  its read flag false. Afterwards the Conversation found under that id has this
  Message's id as lastMessage and the current time as lastMessageAt.
\<close>

theorem send_message_persists:
  assumes "sp_text d = JStr s" and "trim s \<noteq> []"
    and "Conversation_findById castObjectId (conversations st) (sp_conversationId d) =
           Inr (Some conv)"
    and "userId sock \<in> set (participants conv)"
    and "send_message castObjectId new_id created now st sock (Some d) = (st', out)"
  shows "messages st' = messages st @
           [\<lparr>m_id = new_id, m_conversation = c_id conv, m_sender = userId sock,
             m_text = trim s, m_read = False, m_readAt = None, m_createdAt = created\<rparr>]
         \<and> castObjectId (sp_conversationId d) = Some (c_id conv)
         \<and> Conversation_findById castObjectId (conversations st') (sp_conversationId d) =
             Inr (Some (conv\<lparr>lastMessage := Some new_id, lastMessageAt := now\<rparr>))"
proof -
  have id: "c_id (conv\<lparr>lastMessage := Some new_id, lastMessageAt := now\<rparr>) = c_id conv"
    by simp
  have st': "st' = st\<lparr>messages := messages st @
            [new_Message new_id created (c_id conv) (userId sock) (trim s)],
         conversations := Conversation_save
            (conv\<lparr>lastMessage := Some new_id, lastMessageAt := now\<rparr>) (conversations st)\<rparr>"
    using send_message_accepted [OF assms(1-4), of new_id created now] assms(5) by simp
  show ?thesis
    using findById_save [OF assms(3) id] findById_c_id [OF assms(3)]
    by (simp add: st' new_Message_def)
qed

theorem send_message_persists_witness:
  "messages (fst (send_message cast_hex24 (hex24 0x39) 9 10 demo_state alice_socket
      (Some (demo_payload (JStr [0x20, 0x68, 0x69, 0x20]) (JStr (hex24 0x62)))))) =
     demo_messages @
       [\<lparr>m_id = hex24 0x39, m_conversation = hex24 0x31, m_sender = hex24 0x61,
         m_text = [0x68, 0x69], m_read = False, m_readAt = None, m_createdAt = 9\<rparr>]
   \<and> Conversation_findById cast_hex24
        (conversations (fst (send_message cast_hex24 (hex24 0x39) 9 10 demo_state
          alice_socket (Some (demo_payload (JStr [0x20, 0x68, 0x69, 0x20]) (JStr (hex24 0x62)))))))
        (hex24 0x31) =
      Inr (Some \<lparr>c_id = hex24 0x31, participants = [hex24 0x61, hex24 0x62],
                 lastMessage = Some (hex24 0x39), lastMessageAt = 10\<rparr>)"
proof -
  let ?d = "demo_payload (JStr [0x20, 0x68, 0x69, 0x20]) (JStr (hex24 0x62))"
  let ?r = "send_message cast_hex24 (hex24 0x39) 9 10 demo_state alice_socket (Some ?d)"
  have h1: "sp_text ?d = JStr [0x20, 0x68, 0x69, 0x20]"
    by (simp add: demo_payload_def)
  have h2: "trim [0x20, 0x68, 0x69, 0x20] \<noteq> []"
    by (simp add: trim_def is_js_space_def)
  have h3: "Conversation_findById cast_hex24 (conversations demo_state) (sp_conversationId ?d) =
              Inr (Some demo_conversation)"
    by (simp add: Conversation_findById_def demo_defs)
  have h4: "userId alice_socket \<in> set (participants demo_conversation)"
    by (simp add: demo_defs)
  have h5: "?r = (fst ?r, snd ?r)"
    by simp
  have t: "trim [0x20, 0x68, 0x69, 0x20] = [0x68, 0x69]"
    by (simp add: trim_def is_js_space_def)
  show ?thesis
    using send_message_persists [OF h1 h2 h3 h4 h5]
    by (simp add: t demo_payload_def alice_socket_def demo_state_def demo_conversation_def)
qed

text \<open>
  C3. A send-message event whose text is missing, empty or made of white space only
  (or is any other falsy value) leaves the whole state as it was, so no Message is
  persisted, no conversation changes and the connection stays registered; the only
  emission is the error event \<open>Message text is required\<close>, sent to the originating
  socket and reaching that socket alone.
\<close>

theorem send_message_text_required:
  assumes "\<not> truthy (sp_text d)
           \<or> (\<exists>s. sp_text d = JStr s \<and> (\<forall>c \<in> set s. is_js_space c))"
  shows "send_message castObjectId new_id created now st sock (Some d) =
           (st, [(ToSocket (sock_id sock), ErrorEvent ''Message text is required'')])
         \<and> recipients open_sockets (rooms st) (ToSocket (sock_id sock)) = [sock_id sock]"
  using assms
  by (auto simp: send_message_def send_message_try_def trim_empty_iff)

theorem send_message_text_required_witness:
  "send_message cast_hex24 (hex24 0x39) 9 10 demo_state alice_socket
     (Some (demo_payload (JStr [0x20, 0x9, 0xA0]) (JStr (hex24 0x62)))) =
     (demo_state, [(ToSocket 1, ErrorEvent ''Message text is required'')])
   \<and> send_message cast_hex24 (hex24 0x39) 9 10 demo_state alice_socket
     (Some (demo_payload JUndefined (JStr (hex24 0x62)))) =
     (demo_state, [(ToSocket 1, ErrorEvent ''Message text is required'')])
   \<and> send_message cast_hex24 (hex24 0x39) 9 10 demo_state alice_socket
     (Some (demo_payload (JStr []) (JStr (hex24 0x62)))) =
     (demo_state, [(ToSocket 1, ErrorEvent ''Message text is required'')])"
  using send_message_text_required
      [of "demo_payload (JStr [0x20, 0x9, 0xA0]) (JStr (hex24 0x62))" cast_hex24 "hex24 0x39" 9 10
        demo_state
        alice_socket "[1, 2, 3]"]
    send_message_text_required
      [of "demo_payload JUndefined (JStr (hex24 0x62))" cast_hex24 "hex24 0x39" 9 10
        demo_state
        alice_socket "[1, 2, 3]"]
    send_message_text_required
      [of "demo_payload (JStr []) (JStr (hex24 0x62))" cast_hex24 "hex24 0x39" 9 10
        demo_state
        alice_socket "[1, 2, 3]"]
  by (simp add: demo_payload_def is_js_space_def alice_socket_def)

text \<open>
  C4, as the code has it. A send-message event with a valid text whose conversation id
  casts to an ObjectId is refused with the one error event
  \<open>Conversation not found or access denied\<close>, sent to the sender, and changes
  nothing, both when no conversation has that id and when one has but the sender is
  not among its participants; the emissions of the two runs are equal. When the
  conversation id cannot be cast, the lookup throws, and the sender receives the one
  error event \<open>Failed to send message\<close> instead; nothing changes either.
\<close>

theorem send_message_access_denied:
  assumes "sp_text d = JStr s" and "trim s \<noteq> []"
  shows "(Conversation_findById castObjectId (conversations st1) (sp_conversationId d) = Inr None
          \<and> Conversation_findById castObjectId (conversations st2) (sp_conversationId d) =
              Inr (Some conv)
          \<and> userId sock \<notin> set (participants conv) \<longrightarrow>
            send_message castObjectId i1 c1 t1 st1 sock (Some d) =
              (st1, [(ToSocket (sock_id sock),
                      ErrorEvent ''Conversation not found or access denied'')])
            \<and> send_message castObjectId i2 c2 t2 st2 sock (Some d) =
              (st2, [(ToSocket (sock_id sock),
                      ErrorEvent ''Conversation not found or access denied'')])
            \<and> snd (send_message castObjectId i1 c1 t1 st1 sock (Some d)) =
              snd (send_message castObjectId i2 c2 t2 st2 sock (Some d)))
         \<and> (castObjectId (sp_conversationId d) = None \<longrightarrow>
            send_message castObjectId i3 c3 t3 st3 sock (Some d) =
              (st3, [(ToSocket (sock_id sock), ErrorEvent ''Failed to send message'')]))"
  using send_message_refused [OF assms, of castObjectId st1 sock i1 c1 t1]
    send_message_refused [OF assms, of castObjectId st2 sock i2 c2 t2]
    send_message_cast_error [OF assms, of castObjectId i3 c3 t3 st3 sock]
  by auto

theorem send_message_access_denied_witness:
  "send_message cast_hex24 (hex24 0x39) 9 10 (demo_state\<lparr>conversations := []\<rparr>) carol_socket
     (Some (demo_payload (JStr [0x68, 0x69]) (JStr (hex24 0x62)))) =
     (demo_state\<lparr>conversations := []\<rparr>,
      [(ToSocket 3, ErrorEvent ''Conversation not found or access denied'')])
   \<and> send_message cast_hex24 (hex24 0x64) 10 11 demo_state carol_socket
     (Some (demo_payload (JStr [0x68, 0x69]) (JStr (hex24 0x62)))) =
     (demo_state, [(ToSocket 3, ErrorEvent ''Conversation not found or access denied'')])
   \<and> send_message cast_hex24 (hex24 0x64) 10 11 demo_state carol_socket
     (Some ((demo_payload (JStr [0x68, 0x69]) (JStr (hex24 0x62)))
              \<lparr>sp_conversationId := [0x6E, 0x6F, 0x70, 0x65]\<rparr>)) =
     (demo_state, [(ToSocket 3, ErrorEvent ''Failed to send message'')])"
proof -
  let ?d = "demo_payload (JStr [0x68, 0x69]) (JStr (hex24 0x62))"
  let ?e = "?d\<lparr>sp_conversationId := [0x6E, 0x6F, 0x70, 0x65]\<rparr>"
  have h1: "sp_text ?d = JStr [0x68, 0x69]" and h1': "sp_text ?e = JStr [0x68, 0x69]"
    by (simp_all add: demo_payload_def)
  have h2: "trim [0x68, 0x69] \<noteq> []"
    by (simp add: trim_def is_js_space_def)
  have h3: "Conversation_findById cast_hex24 (conversations (demo_state\<lparr>conversations := []\<rparr>))
              (sp_conversationId ?d) = Inr None"
    by (simp add: Conversation_findById_def demo_payload_def)
  have h4: "Conversation_findById cast_hex24 (conversations demo_state) (sp_conversationId ?d) =
              Inr (Some demo_conversation)"
    by (simp add: Conversation_findById_def demo_defs)
  have h5: "userId carol_socket \<notin> set (participants demo_conversation)"
    by (simp add: demo_defs)
  have h6: "cast_hex24 (sp_conversationId ?e) = None"
    by simp
  show ?thesis
    using send_message_access_denied [OF h1 h2, of cast_hex24 "demo_state\<lparr>conversations := []\<rparr>"
        demo_state demo_conversation carol_socket "hex24 0x39" 9 10 "hex24 0x64" 10 11]
      send_message_access_denied [OF h1' h2, of cast_hex24 demo_state demo_state
        demo_conversation carol_socket "hex24 0x39" 9 10 "hex24 0x64" 10 11 "hex24 0x64" 10 11
        demo_state]
      h3 h4 h5 h6
    by (simp add: carol_socket_def)
qed

text \<open>
  C4 as stated fails. No conversation has the id \<open>nope\<close>, the text is valid, and the
  sender receives \<open>Failed to send message\<close>, not
  \<open>Conversation not found or access denied\<close>: the id cannot be cast and the lookup
  throws.
\<close>

theorem send_message_malformed_id:
  "[0x6E, 0x6F, 0x70, 0x65] \<notin> set (map c_id (conversations demo_state))
   \<and> send_message cast_hex24 (hex24 0x39) 9 10 demo_state alice_socket
        (Some ((demo_payload (JStr [0x68, 0x69]) (JStr (hex24 0x62)))
                 \<lparr>sp_conversationId := [0x6E, 0x6F, 0x70, 0x65]\<rparr>)) =
      (demo_state, [(ToSocket 1, ErrorEvent ''Failed to send message'')])
   \<and> send_message cast_hex24 (hex24 0x39) 9 10 demo_state alice_socket
        (Some ((demo_payload (JStr [0x68, 0x69]) (JStr (hex24 0x62)))
                 \<lparr>sp_conversationId := [0x6E, 0x6F, 0x70, 0x65]\<rparr>)) \<noteq>
      (demo_state, [(ToSocket 1, ErrorEvent ''Conversation not found or access denied'')])"
proof -
  have t: "trim [0x68, 0x69] = [0x68, 0x69]"
    by (simp add: trim_def is_js_space_def)
  show ?thesis
    using nope_not_hex24 [of "0x31"]
    by (simp add: send_message_def send_message_try_def Conversation_findById_def t
        demo_payload_def demo_state_def demo_conversation_def alice_socket_def)
qed

text \<open>
  C2. In a successful send-message, with the registry keyed by user id, the
  message-notification is emitted to the personal room of the payload's receiverId
  exactly when \<^verbatim>\<open>activeUsers\<close> has an entry for that receiverId: when it has one the
  emissions are the new-message broadcast followed by the notification, and when it
  has none (or the receiverId is not a string) the new-message broadcast is the only
  emission. The new-message broadcast to the conversation room is emitted in both cases,
  and the emissions are the same for every room membership \<open>ms\<close>, so the receiver
  being in the conversation room suppresses nothing.
\<close>

theorem send_message_notification_iff_present:
  assumes "sp_text d = JStr s" and "trim s \<noteq> []"
    and "Conversation_findById castObjectId (conversations st) (sp_conversationId d) =
           Inr (Some conv)"
    and "userId sock \<in> set (participants conv)"
    and "registry_keyed (activeUsers st)"
    and "pm = populate_sender (users st)
                (new_Message new_id created (c_id conv) (userId sock) (trim s))"
  shows "(\<forall>r. sp_receiverId d = JStr r \<and> Map_has r (activeUsers st) \<longrightarrow>
            snd (send_message castObjectId new_id created now (st\<lparr>rooms := ms\<rparr>) sock (Some d)) =
              [(ToRoom (ConversationRoom (sp_conversationId d)), NewMessage pm),
               (ToRoom (UserRoom r),
                MessageNotification (sp_conversationId d) pm (sock_user sock))])
         \<and> ((\<forall>r. sp_receiverId d = JStr r \<longrightarrow> \<not> Map_has r (activeUsers st)) \<longrightarrow>
            snd (send_message castObjectId new_id created now (st\<lparr>rooms := ms\<rparr>) sock (Some d)) =
              [(ToRoom (ConversationRoom (sp_conversationId d)), NewMessage pm)])"
proof -
  have run: "snd (send_message castObjectId new_id created now (st\<lparr>rooms := ms\<rparr>) sock (Some d)) =
      (ToRoom (ConversationRoom (sp_conversationId d)), NewMessage pm)
      # notify_receiver (activeUsers st) (sp_receiverId d) (sp_conversationId d) pm
          (sock_user sock)"
    using send_message_accepted
        [where d = d and s = s and st = "st\<lparr>rooms := ms\<rparr>" and conv = conv and sock = sock]
      assms
    by simp
  show ?thesis
    using assms(5) by (simp add: run notify_receiver_present notify_receiver_absent)
qed

theorem send_message_notification_iff_present_witness:
  "(2, ConversationRoom (hex24 0x31)) \<in> set (rooms demo_state)
   \<and> Map_has (hex24 0x62) (activeUsers demo_state)
   \<and> snd (send_message cast_hex24 (hex24 0x39) 9 10 demo_state alice_socket
        (Some (demo_payload (JStr [0x68, 0x69]) (JStr (hex24 0x62))))) =
      [(ToRoom (ConversationRoom (hex24 0x31)),
        NewMessage (populate_sender [alice, bob, carol]
          (new_Message (hex24 0x39) 9 (hex24 0x31) (hex24 0x61) [0x68, 0x69]))),
       (ToRoom (UserRoom (hex24 0x62)),
        MessageNotification (hex24 0x31)
          (populate_sender [alice, bob, carol]
            (new_Message (hex24 0x39) 9 (hex24 0x31) (hex24 0x61) [0x68, 0x69]))
          (select_without_password alice))]
   \<and> \<not> Map_has (hex24 0x61) (activeUsers demo_state)
   \<and> snd (send_message cast_hex24 (hex24 0x39) 9 10 demo_state alice_socket
        (Some (demo_payload (JStr [0x68, 0x69]) (JStr (hex24 0x61))))) =
      [(ToRoom (ConversationRoom (hex24 0x31)),
        NewMessage (populate_sender [alice, bob, carol]
          (new_Message (hex24 0x39) 9 (hex24 0x31) (hex24 0x61) [0x68, 0x69])))]"
proof -
  let ?pm = "populate_sender [alice, bob, carol]
               (new_Message (hex24 0x39) 9 (hex24 0x31) (hex24 0x61) [0x68, 0x69])"
  have t: "trim [0x68, 0x69] = [0x68, 0x69]"
    by (simp add: trim_def is_js_space_def)
  have h3: "Conversation_findById cast_hex24 (conversations demo_state) (hex24 0x31) =
              Inr (Some demo_conversation)"
    by (simp add: Conversation_findById_def demo_defs)
  have h4: "userId alice_socket \<in> set (participants demo_conversation)"
    by (simp add: demo_defs)
  have rooms: "demo_state\<lparr>rooms := rooms demo_state\<rparr> = demo_state"
    by simp
  have present: "Map_has (hex24 0x62) (activeUsers demo_state)"
    and absent: "\<not> Map_has (hex24 0x61) (activeUsers demo_state)"
    and member: "(2, ConversationRoom (hex24 0x31)) \<in> set (rooms demo_state)"
    by (simp_all add: Map_has_def demo_state_def)
  have a: "snd (send_message cast_hex24 (hex24 0x39) 9 10 demo_state alice_socket
        (Some (demo_payload (JStr [0x68, 0x69]) (JStr (hex24 0x62))))) =
      [(ToRoom (ConversationRoom (hex24 0x31)), NewMessage ?pm),
       (ToRoom (UserRoom (hex24 0x62)),
        MessageNotification (hex24 0x31) ?pm (select_without_password alice))]"
    using send_message_notification_iff_present
      [of "demo_payload (JStr [0x68, 0x69]) (JStr (hex24 0x62))" "[0x68, 0x69]" cast_hex24
        demo_state
        demo_conversation alice_socket ?pm "hex24 0x39" 9 10 "rooms demo_state"]
      h3 h4 demo_registry_keyed present
    by (simp add: t rooms demo_payload_def alice_socket_def users_demo)
  have b: "snd (send_message cast_hex24 (hex24 0x39) 9 10 demo_state alice_socket
        (Some (demo_payload (JStr [0x68, 0x69]) (JStr (hex24 0x61))))) =
      [(ToRoom (ConversationRoom (hex24 0x31)), NewMessage ?pm)]"
    using send_message_notification_iff_present
      [of "demo_payload (JStr [0x68, 0x69]) (JStr (hex24 0x61))" "[0x68, 0x69]" cast_hex24
        demo_state
        demo_conversation alice_socket ?pm "hex24 0x39" 9 10 "rooms demo_state"]
      h3 h4 demo_registry_keyed absent
    by (simp add: t rooms demo_payload_def alice_socket_def users_demo)
  show ?thesis
    using a b present absent member by simp
qed

text \<open>
  C10. The handler does not compare the payload's receiverId with the participants of
  the conversation. Whenever a send-message passes validation and authorization and
  the receiverId is the id of any user with an entry in \<^verbatim>\<open>activeUsers\<close>, the
  message-notification that carries the Message just persisted (the last one of the
  collection) is emitted to the personal room of that user; nothing is assumed about
  the receiver being a participant.
\<close>

theorem send_message_notifies_unchecked_receiver:
  assumes "sp_text d = JStr s" and "trim s \<noteq> []"
    and "Conversation_findById castObjectId (conversations st) (sp_conversationId d) =
           Inr (Some conv)"
    and "userId sock \<in> set (participants conv)"
    and "registry_keyed (activeUsers st)"
    and "sp_receiverId d = JStr r" and "Map_has r (activeUsers st)"
    and "send_message castObjectId new_id created now st sock (Some d) = (st', out)"
  shows "(ToRoom (UserRoom r),
          MessageNotification (sp_conversationId d)
            (populate_sender (users st') (last (messages st'))) (sock_user sock)) \<in> set out"
proof -
  have "st' = st\<lparr>messages := messages st @
            [new_Message new_id created (c_id conv) (userId sock) (trim s)],
         conversations := Conversation_save
            (conv\<lparr>lastMessage := Some new_id, lastMessageAt := now\<rparr>) (conversations st)\<rparr>"
    and "out = (ToRoom (ConversationRoom (sp_conversationId d)),
       NewMessage (populate_sender (users st)
         (new_Message new_id created (c_id conv) (userId sock) (trim s))))
      # notify_receiver (activeUsers st) (sp_receiverId d) (sp_conversationId d)
          (populate_sender (users st)
            (new_Message new_id created (c_id conv) (userId sock) (trim s)))
          (sock_user sock)"
    using send_message_accepted [OF assms(1-4), of new_id created now] assms(8) by simp_all
  then show ?thesis
    using assms(5-7) by (simp add: notify_receiver_present)
qed

theorem send_message_notifies_unchecked_receiver_witness:
  "(hex24 0x63) \<notin> set (participants demo_conversation)
   \<and> (ToRoom (UserRoom (hex24 0x63)),
       MessageNotification (hex24 0x31)
         (populate_sender [alice, bob, carol]
           (new_Message (hex24 0x39) 9 (hex24 0x31) (hex24 0x61) [0x68, 0x69]))
         (select_without_password alice))
     \<in> set (snd (send_message cast_hex24 (hex24 0x39) 9 10 demo_state alice_socket
          (Some (demo_payload (JStr [0x68, 0x69]) (JStr (hex24 0x63))))))"
proof -
  let ?d = "demo_payload (JStr [0x68, 0x69]) (JStr (hex24 0x63))"
  let ?r = "send_message cast_hex24 (hex24 0x39) 9 10 demo_state alice_socket (Some ?d)"
  have t: "trim [0x68, 0x69] = [0x68, 0x69]"
    by (simp add: trim_def is_js_space_def)
  have h1: "sp_text ?d = JStr [0x68, 0x69]" and h6: "sp_receiverId ?d = JStr (hex24 0x63)"
    by (simp_all add: demo_payload_def)
  have h2: "trim [0x68, 0x69] \<noteq> []"
    by (simp add: t)
  have h3: "Conversation_findById cast_hex24 (conversations demo_state) (sp_conversationId ?d) =
              Inr (Some demo_conversation)"
    by (simp add: Conversation_findById_def demo_defs)
  have h4: "userId alice_socket \<in> set (participants demo_conversation)"
    by (simp add: demo_defs)
  have h7: "Map_has (hex24 0x63) (activeUsers demo_state)"
    by (simp add: Map_has_def demo_state_def)
  have h8: "?r = (fst ?r, snd ?r)"
    by simp
  have st': "users (fst ?r) = [alice, bob, carol]
     \<and> last (messages (fst ?r)) = new_Message (hex24 0x39) 9 (hex24 0x31) (hex24 0x61) [0x68, 0x69]"
    using send_message_accepted [OF h1 h2 h3 h4, of "hex24 0x39" 9 10]
    by (simp add: t demo_payload_def alice_socket_def demo_state_def)
  have outsider: "(hex24 0x63) \<notin> set (participants demo_conversation)"
    by (simp add: demo_conversation_def)
  show ?thesis
    using send_message_notifies_unchecked_receiver [OF h1 h2 h3 h4 demo_registry_keyed h6 h7 h8]
      st' outsider
    by (simp add: demo_payload_def alice_socket_def)
qed

section \<open>Read receipts\<close>

text \<open>
  C5. When a participant of the conversation issues mark-read, the collection keeps
  its length and order, and each Message changes as follows: a Message of that
  conversation (the one found under the given id), sent by someone else and not read
  yet becomes read with readAt set to the current time; every other Message (sent by
  the requester, already read, or of another conversation) is left as it is.
  Conversations are not touched.
\<close>

theorem mark_read_transitions:
  assumes "Conversation_findById castObjectId (conversations st) cid = Inr (Some conv)"
    and "userId sock \<in> set (participants conv)"
    and "mark_read castObjectId now st sock (Some cid) = (st', out)"
  shows "length (messages st') = length (messages st)
         \<and> conversations st' = conversations st
         \<and> castObjectId cid = Some (c_id conv)
         \<and> (\<forall>i < length (messages st).
              messages st' ! i =
                (if m_conversation (messages st ! i) = c_id conv
                    \<and> m_sender (messages st ! i) \<noteq> userId sock
                    \<and> \<not> m_read (messages st ! i)
                 then (messages st ! i)\<lparr>m_read := True, m_readAt := Some now\<rparr>
                 else messages st ! i))"
  using assms findById_c_id [OF assms(1)]
  by (auto simp: mark_read_def mark_read_try_def Message_updateMany_read_def
      mark_read_filter_def)

theorem mark_read_transitions_witness:
  "messages (fst (mark_read cast_hex24 10 demo_state alice_socket (Some (hex24 0x31)))) =
     [\<lparr>m_id = hex24 0x65, m_conversation = hex24 0x31, m_sender = hex24 0x61, m_text = [0x68, 0x69],
       m_read = False, m_readAt = None, m_createdAt = 1\<rparr>,
      \<lparr>m_id = hex24 0x66, m_conversation = hex24 0x31, m_sender = hex24 0x62, m_text = [0x79, 0x6F],
       m_read = True, m_readAt = Some 10, m_createdAt = 2\<rparr>,
      \<lparr>m_id = hex24 0x37, m_conversation = hex24 0x31, m_sender = hex24 0x62, m_text = [0x6F, 0x6B],
       m_read = True, m_readAt = Some 3, m_createdAt = 3\<rparr>,
      \<lparr>m_id = hex24 0x38, m_conversation = hex24 0x32, m_sender = hex24 0x63, m_text = [0x68, 0x6D],
       m_read = False, m_readAt = None, m_createdAt = 4\<rparr>]"
proof -
  let ?r = "mark_read cast_hex24 10 demo_state alice_socket (Some (hex24 0x31))"
  have h1: "Conversation_findById cast_hex24 (conversations demo_state) (hex24 0x31) =
              Inr (Some demo_conversation)"
    by (simp add: Conversation_findById_def demo_defs)
  have h2: "userId alice_socket \<in> set (participants demo_conversation)"
    by (simp add: demo_defs)
  have h3: "?r = (fst ?r, snd ?r)"
    by simp
  have len: "length (messages demo_state) = 4"
    by (simp add: demo_state_def demo_messages_def)
  have all: "\<forall>i < 4. messages (fst ?r) ! i =
                (if m_conversation (messages demo_state ! i) = hex24 0x31
                    \<and> m_sender (messages demo_state ! i) \<noteq> userId alice_socket
                    \<and> \<not> m_read (messages demo_state ! i)
                 then (messages demo_state ! i)\<lparr>m_read := True, m_readAt := Some 10\<rparr>
                 else messages demo_state ! i)"
    and len': "length (messages (fst ?r)) = 4"
    using mark_read_transitions [OF h1 h2 h3] by (simp_all add: len)
  have "messages (fst ?r) =
      [messages (fst ?r) ! 0, messages (fst ?r) ! 1, messages (fst ?r) ! 2,
       messages (fst ?r) ! 3]"
    using len' by (auto simp: list_eq_iff_nth_eq nth_Cons' less_Suc_eq numeral_eq_Suc)
  moreover have "messages (fst ?r) ! 0 = \<lparr>m_id = hex24 0x65, m_conversation = hex24 0x31,
       m_sender = hex24 0x61, m_text = [0x68, 0x69], m_read = False, m_readAt = None,
       m_createdAt = 1\<rparr>"
    using all by (simp add: demo_state_def demo_messages_def alice_socket_def)
  moreover have "messages (fst ?r) ! 1 = \<lparr>m_id = hex24 0x66, m_conversation = hex24 0x31,
       m_sender = hex24 0x62, m_text = [0x79, 0x6F], m_read = True, m_readAt = Some 10,
       m_createdAt = 2\<rparr>"
    using all by (simp add: demo_state_def demo_messages_def alice_socket_def)
  moreover have "messages (fst ?r) ! 2 = \<lparr>m_id = hex24 0x37, m_conversation = hex24 0x31,
       m_sender = hex24 0x62, m_text = [0x6F, 0x6B], m_read = True, m_readAt = Some 3,
       m_createdAt = 3\<rparr>"
    using all by (simp add: demo_state_def demo_messages_def alice_socket_def)
  moreover have "messages (fst ?r) ! 3 = \<lparr>m_id = hex24 0x38, m_conversation = hex24 0x32,
       m_sender = hex24 0x63, m_text = [0x68, 0x6D], m_read = False, m_readAt = None,
       m_createdAt = 4\<rparr>"
    using all by (simp add: demo_state_def demo_messages_def alice_socket_def)
  ultimately show ?thesis
    by simp
qed

text \<open>
  C6. A mark-read event for a conversation that does not exist (no conversation has
  the given id, or the id cannot even be cast), or of which the requester is not a
  participant, returns the state as it was (every read flag and readAt timestamp
  unchanged) and emits nothing: no error event, no messages-read broadcast.
\<close>

theorem mark_read_silent_noop:
  assumes "Conversation_findById castObjectId (conversations st) cid = Inl CastError
           \<or> Conversation_findById castObjectId (conversations st) cid = Inr None
           \<or> (\<exists>conv. Conversation_findById castObjectId (conversations st) cid = Inr (Some conv)
                \<and> userId sock \<notin> set (participants conv))"
  shows "mark_read castObjectId now st sock (Some cid) = (st, [])"
  using assms by (auto simp: mark_read_def mark_read_try_def)

theorem mark_read_silent_noop_witness:
  "mark_read cast_hex24 10 demo_state carol_socket (Some (hex24 0x31)) = (demo_state, [])
   \<and> mark_read cast_hex24 10 demo_state alice_socket (Some (hex24 0x33)) = (demo_state, [])
   \<and> mark_read cast_hex24 10 demo_state alice_socket (Some [0x6E, 0x6F, 0x70, 0x65]) =
       (demo_state, [])"
proof -
  have h1: "Conversation_findById cast_hex24 (conversations demo_state) (hex24 0x31) =
              Inr (Some demo_conversation)
            \<and> userId carol_socket \<notin> set (participants demo_conversation)"
    by (simp add: Conversation_findById_def demo_defs)
  have h2: "Conversation_findById cast_hex24 (conversations demo_state) (hex24 0x33) = Inr None"
    by (simp add: Conversation_findById_def demo_defs)
  have h3: "Conversation_findById cast_hex24 (conversations demo_state) [0x6E, 0x6F, 0x70, 0x65] =
              Inl CastError"
    by (simp add: Conversation_findById_def)
  show ?thesis
    using mark_read_silent_noop [of cast_hex24 demo_state "hex24 0x31" carol_socket 10]
      mark_read_silent_noop [of cast_hex24 demo_state "hex24 0x33" alice_socket 10]
      mark_read_silent_noop [of cast_hex24 demo_state "[0x6E, 0x6F, 0x70, 0x65]" alice_socket 10]
      h1 h2 h3
    by blast
qed

section \<open>Conversations between two users\<close>

text \<open>
  C7. When \<^verbatim>\<open>findOrCreate\<close> has returned a Conversation for the user ids \<open>a\<close> and
  \<open>b\<close>, a further call with the ids in the other order or in the same order returns
  that same Conversation and leaves the collection as it is. The Conversation's
  participants are the sorted pair; and in a collection of conversations with two
  sorted participants and no repeated participants array, these properties are kept
  and exactly one Conversation has the participants \<open>a\<close> and \<open>b\<close>.
\<close>

theorem findOrCreate_same_conversation:
  assumes "findOrCreate i1 t1 cs a b = (c, cs')"
  shows "findOrCreate i2 t2 cs' b a = (c, cs')
         \<and> findOrCreate i2 t2 cs' a b = (c, cs')
         \<and> participants c = sort [a, b]
         \<and> (canonical_pairs cs \<and> distinct (map participants cs) \<longrightarrow>
              canonical_pairs cs' \<and> distinct (map participants cs')
              \<and> length (filter (\<lambda>x. set (participants x) = {a, b}) cs') = 1)"
proof -
  have found: "Conversation_findOne cs' (sort [a, b]) = Some c"
    using findOrCreate_findOne [OF assms] .
  have again: "findOrCreate i2 t2 cs' a b = (c, cs')"
    using findOrCreate_found [OF found] .
  have swapped: "findOrCreate i2 t2 cs' b a = (c, cs')"
    using findOrCreate_found [of cs' b a c i2 t2] found sort_pair_swap [of a b] by simp
  have parts: "participants c = sort [a, b]" and mem: "c \<in> set cs'"
    using find_Some_holds [OF found [unfolded Conversation_findOne_def]] by simp_all
  have inv: "length (filter (\<lambda>x. set (participants x) = {a, b}) cs') = 1"
    if "canonical_pairs cs'" and "distinct (map participants cs')"
  proof -
    have "filter (\<lambda>x. set (participants x) = {a, b}) cs' =
          filter (\<lambda>x. participants x = sort [a, b]) cs'"
      using that(1) unfolding canonical_pairs_def list_all_iff
      by (intro filter_cong refl) (simp add: sorted_pair_set del: sort_key_simps)
    moreover have "sort [a, b] \<in> participants ` set cs'"
      using parts mem by (metis imageI)
    ultimately show ?thesis
      using filter_key_once [OF that(2), of "sort [a, b]"] by simp
  qed
  show ?thesis
    using again swapped parts inv findOrCreate_invariant [OF assms] by blast
qed

theorem findOrCreate_same_conversation_witness:
  "findOrCreate (hex24 0x31) 0 [] (hex24 0x62) (hex24 0x61) = (demo_conversation, [demo_conversation])
   \<and> findOrCreate (hex24 0x32) 7 [demo_conversation] (hex24 0x61) (hex24 0x62) =
       (demo_conversation, [demo_conversation])
   \<and> findOrCreate (hex24 0x32) 7 [demo_conversation] (hex24 0x62) (hex24 0x61) =
       (demo_conversation, [demo_conversation])
   \<and> length (filter (\<lambda>x. set (participants x) = {hex24 0x62, hex24 0x61}) [demo_conversation]) = 1"
proof -
  have first: "findOrCreate (hex24 0x31) 0 [] (hex24 0x62) (hex24 0x61) = (demo_conversation, [demo_conversation])"
    by (simp add: findOrCreate_def Let_def Conversation_findOne_def Conversation_create_def
        demo_conversation_def)
  have start: "canonical_pairs [] \<and> distinct (map participants [])"
    by (simp add: canonical_pairs_def)
  show ?thesis
    using findOrCreate_same_conversation [OF first, of "hex24 0x32" 7] first start by blast
qed

section \<open>Authentication of a connection\<close>

text \<open>
  C8, as the code has it. Every attempt that fails authentication is rejected, with no
  user attached to the socket, and the client receives a message that names the cause:
  \<open>Authentication error: No token provided\<close> when the token is missing or empty,
  \<open>Authentication error: Invalid token\<close> when the token is not verified or the id it
  carries cannot be cast to an ObjectId, and \<open>Authentication error: User not found\<close>
  when the id is cast and has no stored user. All three messages start with
  \<open>Authentication error: \<close>.
\<close>

theorem authenticate_rejects_by_cause:
  "(\<not> truthy token \<longrightarrow>
      authenticate castObjectId jwt_verify us token =
        Inl ''Authentication error: No token provided'')
   \<and> (truthy token \<and> (\<forall>t. token = JStr t \<longrightarrow>
          jwt_verify t = None
          \<or> (\<exists>decoded_id. jwt_verify t = Some decoded_id \<and> castObjectId decoded_id = None)) \<longrightarrow>
      authenticate castObjectId jwt_verify us token = Inl ''Authentication error: Invalid token'')
   \<and> (\<forall>t decoded_id i. token = JStr t \<and> t \<noteq> [] \<and> jwt_verify t = Some decoded_id
          \<and> castObjectId decoded_id = Some i \<and> find (\<lambda>u. u_id u = i) us = None \<longrightarrow>
      authenticate castObjectId jwt_verify us token = Inl ''Authentication error: User not found'')
   \<and> (\<forall>e. authenticate castObjectId jwt_verify us token = Inl e \<longrightarrow>
      take 22 e = ''Authentication error: '')"
  by (cases token)
    (auto simp: authenticate_def authenticate_try_def User_findById_def
      split: option.splits sum.splits)

theorem authenticate_rejects_by_cause_witness:
  "authenticate cast_hex24 demo_jwt_verify [alice, bob, carol] JUndefined =
     Inl ''Authentication error: No token provided''
   \<and> authenticate cast_hex24 demo_jwt_verify [alice, bob, carol] (JStr [0x78]) =
     Inl ''Authentication error: Invalid token''
   \<and> authenticate cast_hex24 demo_jwt_verify [alice, bob, carol] (JStr [0x74, 0x71]) =
     Inl ''Authentication error: Invalid token''
   \<and> authenticate cast_hex24 demo_jwt_verify [alice, bob, carol] (JStr [0x74, 0x7A]) =
     Inl ''Authentication error: User not found''"
proof -
  have none: "find (\<lambda>u. u_id u = hex24 0x30) [alice, bob, carol] = None"
    by (simp add: demo_defs)
  show ?thesis
    using authenticate_rejects_by_cause
        [of JUndefined cast_hex24 demo_jwt_verify "[alice, bob, carol]"]
      authenticate_rejects_by_cause
        [of "JStr [0x78]" cast_hex24 demo_jwt_verify "[alice, bob, carol]"]
      authenticate_rejects_by_cause
        [of "JStr [0x74, 0x71]" cast_hex24 demo_jwt_verify "[alice, bob, carol]"]
      authenticate_rejects_by_cause
        [of "JStr [0x74, 0x7A]" cast_hex24 demo_jwt_verify "[alice, bob, carol]"]
      none
    by (simp add: demo_jwt_verify_def)
qed

text \<open>
  C8 as stated fails: with the same stored users, a token that is not verified and a
  verified token of a user who is no longer stored are both rejected, with different
  messages.
\<close>

theorem authenticate_cause_visible:
  "authenticate cast_hex24 demo_jwt_verify [alice, bob, carol] (JStr [0x78]) =
     Inl ''Authentication error: Invalid token''
   \<and> authenticate cast_hex24 demo_jwt_verify [alice, bob, carol] (JStr [0x74, 0x7A]) =
     Inl ''Authentication error: User not found''
   \<and> authenticate cast_hex24 demo_jwt_verify [alice, bob, carol] (JStr [0x78]) \<noteq>
     authenticate cast_hex24 demo_jwt_verify [alice, bob, carol] (JStr [0x74, 0x7A])"
  by (simp add: authenticate_def authenticate_try_def demo_jwt_verify_def User_findById_def
      demo_defs)

section \<open>Message history\<close>

text \<open>
  C9 at a conversation of 101 messages. The sort is ascending and the limit keeps the
  first 100 documents of the sorted result: the read returns the messages created at
  the times 1 to 100, the oldest ones, and not the messages created at the times 2 to
  101, which are the 100 most recent.
\<close>

theorem get_messages_keeps_oldest:
  "get_messages cast_hex24 history_state (hex24 0x61) (hex24 0x31) =
     Inr (map (populate_sender [alice, bob, carol]) (map history_message [1..<101]))
   \<and> get_messages cast_hex24 history_state (hex24 0x61) (hex24 0x31) \<noteq>
     Inr (map (populate_sender [alice, bob, carol]) (map history_message [2..<102]))"
proof -
  have conv: "Conversation_findById cast_hex24 (conversations history_state) (hex24 0x31) =
                Inr (Some demo_conversation)"
    by (simp add: history_state_def Conversation_findById_def demo_defs)
  have part: "hex24 0x61 \<in> set (participants demo_conversation)"
    by (simp add: demo_conversation_def)
  have msgs: "messages history_state = map history_message [1..<102]"
    and us: "users history_state = [alice, bob, carol]"
    by (simp_all add: history_state_def demo_state_def)
  have same: "\<forall>m \<in> set (messages history_state). m_conversation m = c_id demo_conversation"
    by (auto simp: msgs history_message_def)
  have asc: "sorted (map m_createdAt (messages history_state))"
    by (simp only: msgs history_createdAt sorted_upt)
  have cut: "take 100 (map history_message [1..<102]) = map history_message [1..<101]"
    by (simp add: take_map)
  have run: "get_messages cast_hex24 history_state (hex24 0x61) (hex24 0x31) =
     Inr (map (populate_sender [alice, bob, carol]) (map history_message [1..<101]))"
    using get_messages_take [OF conv part same asc] unfolding msgs us cut .
  have "map (populate_sender [alice, bob, carol]) (map history_message [1..<101]) \<noteq>
        map (populate_sender [alice, bob, carol]) (map history_message [2..<102])"
  proof
    assume "map (populate_sender [alice, bob, carol]) (map history_message [1..<101]) =
            map (populate_sender [alice, bob, carol]) (map history_message [2..<102])"
    then have "map (\<lambda>p. m_createdAt (pm_message p))
                 (map (populate_sender [alice, bob, carol]) (map history_message [1..<101])) =
               map (\<lambda>p. m_createdAt (pm_message p))
                 (map (populate_sender [alice, bob, carol]) (map history_message [2..<102]))"
      by simp
    then have "[1..<101] = [2..<(102::nat)]"
      by (simp only: history_populated_createdAt)
    then have "hd [1..<101] = hd [2..<(102::nat)]"
      by simp
    then show False
      by simp
  qed
  then show ?thesis
    using run by simp
qed

end
